theory Spec2Isabelle
  imports Complex_Main "HOL-Library.Sublist"
begin

section \<open>Python values, exceptions and printed output\<close>

text \<open>
  The program is \<^verbatim>\<open>news_signal_ollama.py\<close>. Its data are the values that
  \<^verbatim>\<open>json.loads\<close> builds: \<^verbatim>\<open>None\<close>, booleans, unbounded integers, floats, strings,
  lists and dicts. A string is the sequence of the bytes of its UTF-8 encoding. A dict is an
  association list in insertion order; the first binding of a key is the one a lookup finds.

  A float is modelled by the value it denotes: a finite double is the rational number it
  stands for, and the three special values are constructors of their own. Comparison of
  Python numbers is exact on these values (an \<^verbatim>\<open>int\<close> is compared with a \<^verbatim>\<open>float\<close>
  without rounding), so no rounding enters the model.
\<close>

datatype pyfloat = Finite rat | PosInf | NegInf | NaN

datatype pyval =
    PNone
  | PBool bool
  | PInt int
  | PFloat pyfloat
  | PStr string
  | PList "pyval list"
  | PDict "(string \<times> pyval) list"

datatype pyerr =
    JSONDecodeError
  | AttributeError
  | KeyError string
  | ValueError
  | TypeError
  | OverflowError
  | RecursionError

text \<open>
  One call of \<^verbatim>\<open>print\<close> is one item of output. An f-string is the list of its pieces:
  literal text, a value rendered by \<^verbatim>\<open>str\<close> (\<^verbatim>\<open>{x}\<close>), and a number rendered with
  two decimals (\<^verbatim>\<open>{x:.2f}\<close>). The pieces are kept symbolic: the claims are about which
  item is printed, not about the digits of a float.
\<close>

datatype piece = Lit string | StrOf pyval | Fixed2 pyval

type_synonym printed = "piece list"

abbreviation nl :: char where
  "nl \<equiv> CHR 0x0A"

abbreviation dq :: char where
  "dq \<equiv> CHR 0x22"

text \<open>The warning sign U+26A0 followed by the variation selector U+FE0F, in UTF-8.\<close>

definition warning_sign :: string where
  "warning_sign = [CHR 0xE2, CHR 0x9A, CHR 0xA0, CHR 0xEF, CHR 0xB8, CHR 0x8F]"

section \<open>Prompt Builder (lines 14 to 41)\<close>

text \<open>
  The template of the f-string, line by line, up to the line that carries the headline.
  The doubled braces of the source are single braces in the text. The text opens with a
  newline, since the first line follows the opening quotes.
\<close>

definition template_lines :: "string list" where
  "template_lines =
    [ '''',
      ''You are a systematic trading assistant.'',
      '''',
      ''Instrument: GBP/USD'',
      ''Time horizon: next 1-24 hours.'',
      '''',
      ''Task:'',
      ''1. Read the following news headline.'',
      ''2. Evaluate its *short-term* likely impact on GBP/USD.'',
      ''3. Respond ONLY in strict JSON with this exact structure:'',
      '''',
      ''{'',
      ''  '' @ [dq] @ ''sentiment'' @ [dq] @ '': '' @ [dq] @ ''bullish'' @ [dq] @ '' | ''
           @ [dq] @ ''bearish'' @ [dq] @ '' | '' @ [dq] @ ''neutral'' @ [dq] @ '','',
      ''  '' @ [dq] @ ''confidence'' @ [dq] @ '': float between 0 and 1,'',
      ''  '' @ [dq] @ ''direction'' @ [dq] @ '': '' @ [dq] @ ''long'' @ [dq] @ '' | ''
           @ [dq] @ ''short'' @ [dq] @ '' | '' @ [dq] @ ''flat'' @ [dq] @ '','',
      ''  '' @ [dq] @ ''reason'' @ [dq] @ '': '' @ [dq]
           @ ''very short explanation in one sentence'' @ [dq],
      ''}'',
      '''',
      ''Rules:'',
      ''- '' @ [dq] @ ''bullish'' @ [dq] @ '' means positive for EUR against USD (EUR/USD up).'',
      ''- '' @ [dq] @ ''bearish'' @ [dq] @ '' means negative for EUR against USD (EUR/USD down).'',
      ''- '' @ [dq] @ ''neutral'' @ [dq] @ '' means unclear or no strong edge.'',
      ''- '' @ [dq] @ ''long'' @ [dq] @ '' = buy GBP/USD, '' @ [dq] @ ''short'' @ [dq]
           @ '' = sell GBP/USD, '' @ [dq] @ ''flat'' @ [dq] @ '' = no position.'',
      ''- If the headline is ambiguous, prefer '' @ [dq] @ ''neutral'' @ [dq] @ '' and ''
           @ [dq] @ ''flat'' @ [dq] @ ''.'',
      ''- Do NOT include any text before or after the JSON.'',
      '''' ]"

definition unlines :: "string list \<Rightarrow> string" where
  "unlines ls = concat (map (\<lambda>l. l @ [nl]) ls)"

definition build_prompt :: "string \<Rightarrow> string" where
  "build_prompt headline =
     unlines template_lines @ ''Headline: '' @ [dq] @ headline @ [dq] @ [nl]"

section \<open>Model Client Adapter (lines 43 to 50)\<close>

text \<open>
  \<^verbatim>\<open>str.strip()\<close> removes the characters for which \<^verbatim>\<open>str.isspace\<close> holds from
  both ends. These are their UTF-8 encodings: ten ASCII characters, U+0085, U+00A0, U+1680,
  U+2000 to U+200A, U+2028, U+2029, U+202F, U+205F and U+3000.
\<close>

definition whitespace :: "string list" where
  "whitespace =
    [ [CHR 0x09], [CHR 0x0A], [CHR 0x0B], [CHR 0x0C], [CHR 0x0D],
      [CHR 0x1C], [CHR 0x1D], [CHR 0x1E], [CHR 0x1F], [CHR 0x20],
      [CHR 0xC2, CHR 0x85], [CHR 0xC2, CHR 0xA0],
      [CHR 0xE1, CHR 0x9A, CHR 0x80],
      [CHR 0xE2, CHR 0x80, CHR 0x80], [CHR 0xE2, CHR 0x80, CHR 0x81],
      [CHR 0xE2, CHR 0x80, CHR 0x82], [CHR 0xE2, CHR 0x80, CHR 0x83],
      [CHR 0xE2, CHR 0x80, CHR 0x84], [CHR 0xE2, CHR 0x80, CHR 0x85],
      [CHR 0xE2, CHR 0x80, CHR 0x86], [CHR 0xE2, CHR 0x80, CHR 0x87],
      [CHR 0xE2, CHR 0x80, CHR 0x88], [CHR 0xE2, CHR 0x80, CHR 0x89],
      [CHR 0xE2, CHR 0x80, CHR 0x8A], [CHR 0xE2, CHR 0x80, CHR 0xA8],
      [CHR 0xE2, CHR 0x80, CHR 0xA9], [CHR 0xE2, CHR 0x80, CHR 0xAF],
      [CHR 0xE2, CHR 0x81, CHR 0x9F], [CHR 0xE3, CHR 0x80, CHR 0x80] ]"

text \<open>
  Dropping leading characters that satisfy \<open>sp\<close>, where a character is one, two or three
  bytes long.
\<close>

fun drop_leading :: "(string \<Rightarrow> bool) \<Rightarrow> string \<Rightarrow> string" where
  "drop_leading sp (a # b # c # s) =
     (if sp [a] then drop_leading sp (b # c # s)
      else if sp [a, b] then drop_leading sp (c # s)
      else if sp [a, b, c] then drop_leading sp s
      else a # b # c # s)"
| "drop_leading sp [a, b] =
     (if sp [a] then drop_leading sp [b]
      else if sp [a, b] then []
      else [a, b])"
| "drop_leading sp [a] = (if sp [a] then [] else [a])"
| "drop_leading sp [] = []"

definition strip :: "string \<Rightarrow> string" where
  "strip s =
     rev (drop_leading (\<lambda>w. rev w \<in> set whitespace)
       (rev (drop_leading (\<lambda>w. w \<in> set whitespace) s)))"

section \<open>Signal Validator (lines 52 to 67)\<close>

text \<open>
  A run of a function is what it printed, in order, and how it ended: \<open>Inl\<close> with the
  exception that escaped, or \<open>Inr\<close> with the value returned.
\<close>

type_synonym 'a run = "printed list \<times> (pyerr + 'a)"

type_synonym pydict = "(string \<times> pyval) list"

definition required_keys :: "string set" where
  "required_keys = {''sentiment'', ''confidence'', ''direction'', ''reason''}"

text \<open>\<^verbatim>\<open>data.keys()\<close>: only a dict has the method.\<close>

fun keys :: "pyval \<Rightarrow> pyerr + string list" where
  "keys (PDict d) = Inr (map fst d)"
| "keys v = Inl AttributeError"

text \<open>
  \<^verbatim>\<open>json.loads\<close> is the standard library's; it is the parameter \<open>loads\<close>, which
  either raises or returns the parsed value. The \<^verbatim>\<open>except\<close> clause catches
  \<^verbatim>\<open>JSONDecodeError\<close> and nothing else.
\<close>

definition validate :: "(string \<Rightarrow> pyerr + pyval) \<Rightarrow> string \<Rightarrow> pyval option run" where
  "validate loads raw_content =
     (case loads raw_content of
        Inl e \<Rightarrow>
          if e = JSONDecodeError
          then ([[Lit (warning_sign @ '' Model did not return valid JSON. Raw response:'')],
                 [Lit raw_content]], Inr None)
          else ([], Inl e)
      | Inr data \<Rightarrow>
          (case keys data of
             Inl e \<Rightarrow> ([], Inl e)
           | Inr ks \<Rightarrow>
               if \<not> required_keys \<subseteq> set ks
               then ([[Lit (warning_sign @ '' JSON is missing required keys. Got:'')],
                      [StrOf data]], Inr None)
               else ([], Inr (Some data))))"

text \<open>
  The same lines as a relation between the raw text and the runs it can have, over a
  parser that is itself a relation: \<open>parse raw p\<close> says that parsing \<open>raw\<close> can end in
  \<open>p\<close>. There is one rule for each path through lines 53 to 67: the handler of
  \<^verbatim>\<open>JSONDecodeError\<close> (lines 55 to 58), any other exception of the parser, the call of
  \<^verbatim>\<open>keys\<close> raising (line 62), a required key missing (lines 62 to 65), and the return
  of the record (line 67).
\<close>

inductive validates ::
  "(string \<Rightarrow> pyerr + pyval \<Rightarrow> bool) \<Rightarrow> string \<Rightarrow> pyval option run \<Rightarrow> bool"
  for parse :: "string \<Rightarrow> pyerr + pyval \<Rightarrow> bool" and raw_content :: string where
  not_json:
    "parse raw_content (Inl JSONDecodeError) \<Longrightarrow>
     validates parse raw_content
       ([[Lit (warning_sign @ '' Model did not return valid JSON. Raw response:'')],
         [Lit raw_content]], Inr None)"
| parser_raises:
    "parse raw_content (Inl e) \<Longrightarrow> e \<noteq> JSONDecodeError \<Longrightarrow>
     validates parse raw_content ([], Inl e)"
| keys_raises:
    "parse raw_content (Inr data) \<Longrightarrow> keys data = Inl e \<Longrightarrow>
     validates parse raw_content ([], Inl e)"
| missing_keys:
    "parse raw_content (Inr data) \<Longrightarrow> keys data = Inr ks \<Longrightarrow>
     \<not> required_keys \<subseteq> set ks \<Longrightarrow>
     validates parse raw_content
       ([[Lit (warning_sign @ '' JSON is missing required keys. Got:'')],
         [StrOf data]], Inr None)"
| valid_signal:
    "parse raw_content (Inr data) \<Longrightarrow> keys data = Inr ks \<Longrightarrow>
     required_keys \<subseteq> set ks \<Longrightarrow>
     validates parse raw_content ([], Inr (Some data))"

text \<open>
  The whole function. The backend call \<^verbatim>\<open>ollama.chat(...)["message"]["content"]\<close> is the
  parameter \<open>chat\<close>: it raises, or returns the reply text for the prompt.
\<close>

definition get_trading_signal_from_headline ::
  "(string \<Rightarrow> pyerr + string) \<Rightarrow> (string \<Rightarrow> pyerr + pyval) \<Rightarrow> string \<Rightarrow> pyval option run" where
  "get_trading_signal_from_headline chat loads headline =
     (case chat (build_prompt headline) of
        Inl e \<Rightarrow> ([], Inl e)
      | Inr content \<Rightarrow> validate loads (strip content))"

section \<open>Decision Interpreter (lines 70 to 98)\<close>

text \<open>\<^verbatim>\<open>signal[k]\<close> raises \<^verbatim>\<open>KeyError\<close> when the key is absent.\<close>

definition getitem :: "pydict \<Rightarrow> string \<Rightarrow> pyerr + pyval" where
  "getitem d k = (case map_of d k of None \<Rightarrow> Inl (KeyError k) | Some v \<Rightarrow> Inr v)"

text \<open>
  \<^verbatim>\<open>{confidence:.2f}\<close>. A float is always formatted (also \<^verbatim>\<open>nan\<close> and \<^verbatim>\<open>inf\<close>).
  An \<^verbatim>\<open>int\<close> or \<^verbatim>\<open>bool\<close> is converted to a float first, which raises
  \<^verbatim>\<open>OverflowError\<close> when it rounds beyond the largest double, that is from
  \<open>2^1024 - 2^970\<close> on. A string raises \<^verbatim>\<open>ValueError\<close> (unknown format code); \<^verbatim>\<open>None\<close>,
  a list and a dict raise \<^verbatim>\<open>TypeError\<close>.
\<close>

fun format_2f :: "pyval \<Rightarrow> pyerr + piece" where
  "format_2f (PFloat x) = Inr (Fixed2 (PFloat x))"
| "format_2f (PInt n) =
     (if \<bar>n\<bar> < 2 ^ 1024 - 2 ^ 970 then Inr (Fixed2 (PInt n)) else Inl OverflowError)"
| "format_2f (PBool b) = Inr (Fixed2 (PBool b))"
| "format_2f (PStr s) = Inl ValueError"
| "format_2f v = Inl TypeError"

text \<open>
  The values that \<^verbatim>\<open>{confidence:.2f}\<close> accepts: a float, and an \<^verbatim>\<open>int\<close> or
  \<^verbatim>\<open>bool\<close> that converts to a float.
\<close>

fun converts_to_float :: "pyval \<Rightarrow> bool" where
  "converts_to_float (PFloat x) = True"
| "converts_to_float (PInt n) = (\<bar>n\<bar> < 2 ^ 1024 - 2 ^ 970)"
| "converts_to_float (PBool b) = True"
| "converts_to_float v = False"

text \<open>
  The literal \<^verbatim>\<open>0.6\<close> is the double nearest to six tenths, which is
  \<open>5404319552844595 / 2^53\<close>.
\<close>

definition threshold :: rat where
  "threshold = 5404319552844595 / 9007199254740992"

text \<open>
  \<^verbatim>\<open>confidence < 0.6\<close>. Every comparison with \<^verbatim>\<open>nan\<close> is false. A value that is not
  a number raises \<^verbatim>\<open>TypeError\<close>.
\<close>

fun less_than :: "pyval \<Rightarrow> rat \<Rightarrow> pyerr + bool" where
  "less_than (PFloat (Finite x)) t = Inr (x < t)"
| "less_than (PFloat NegInf) t = Inr True"
| "less_than (PFloat PosInf) t = Inr False"
| "less_than (PFloat NaN) t = Inr False"
| "less_than (PInt n) t = Inr (of_int n < t)"
| "less_than (PBool b) t = Inr ((if b then 1 else 0) < t)"
| "less_than v t = Inl TypeError"

text \<open>\<^verbatim>\<open>x == "literal"\<close>: true exactly for the string itself, and it never raises.\<close>

definition eq_str :: "pyval \<Rightarrow> string \<Rightarrow> bool" where
  "eq_str v s = (v = PStr s)"

definition stay_flat_low :: printed where
  "stay_flat_low = [Lit ''- Stay FLAT (no trade). Confidence too low or neutral signal.'']"

definition consider_long :: printed where
  "consider_long = [Lit ''- Consider LONG GBP/USD with small risk.'']"

definition consider_short :: printed where
  "consider_short = [Lit ''- Consider SHORT GBP/USD with small risk.'']"

definition stay_flat_unclear :: printed where
  "stay_flat_unclear = [Lit ''- Stay FLAT (direction unclear).'']"

definition disclaimer :: printed where
  "disclaimer =
     [Lit (nl # warning_sign @
       '' WARNING: This is a toy signal. Use ONLY for learning and backtesting, not live money.'')]"

text \<open>Lines 88 to 96: the rule, once the comparison has given \<open>low\<close>.\<close>

definition action :: "bool \<Rightarrow> pyval \<Rightarrow> pyval \<Rightarrow> printed" where
  "action low direction sentiment =
     (if low \<or> eq_str direction ''flat'' \<or> eq_str sentiment ''neutral''
      then stay_flat_low
      else if eq_str direction ''long'' then consider_long
      else if eq_str direction ''short'' then consider_short
      else stay_flat_unclear)"

definition interpret_signal :: "pydict \<Rightarrow> unit run" where
  "interpret_signal signal =
     (case getitem signal ''sentiment'' of Inl e \<Rightarrow> ([], Inl e) | Inr sentiment \<Rightarrow>
     (case getitem signal ''confidence'' of Inl e \<Rightarrow> ([], Inl e) | Inr confidence \<Rightarrow>
     (case getitem signal ''direction'' of Inl e \<Rightarrow> ([], Inl e) | Inr direction \<Rightarrow>
     (case getitem signal ''reason'' of Inl e \<Rightarrow> ([], Inl e) | Inr reason \<Rightarrow>
     (let out1 = [ [Lit (nl # ''--- AI Trading Signal ---'')],
                   [Lit ''Sentiment : '', StrOf sentiment],
                   [Lit ''Direction : '', StrOf direction] ]
      in
     (case format_2f confidence of Inl e \<Rightarrow> (out1, Inl e) | Inr shown \<Rightarrow>
     (let out2 = out1 @
                 [ [Lit ''Confidence: '', shown],
                   [Lit ''Reason    : '', StrOf reason],
                   [Lit (nl # ''Suggested action (for testing / demo only):'')] ]
      in
     (case less_than confidence threshold of Inl e \<Rightarrow> (out2, Inl e) | Inr low \<Rightarrow>
        (out2 @ [action low direction sentiment, disclaimer], Inr ())))))))))"

section \<open>Signal Recorder (lines 129 to 156)\<close>

text \<open>
  A file is the list of the rows written to it, a row the list of its cells; the csv writer
  renders \<^verbatim>\<open>None\<close> as the empty cell and any other value by \<^verbatim>\<open>str\<close>. The file system
  maps a name to the file, if there is one. Opening a missing file for reading raises
  \<^verbatim>\<open>FileNotFoundError\<close>, which the code catches; opening for appending creates it. Other
  failures of the operating system are outside the model.
\<close>

type_synonym row = "pyval list"

type_synonym filesystem = "string \<rightharpoonup> row list"

definition fieldnames :: "string list" where
  "fieldnames =
     [''timestamp'', ''headline'', ''sentiment'', ''direction'', ''confidence'', ''reason'']"

text \<open>\<^verbatim>\<open>signal.get(k)\<close>: the value, or \<^verbatim>\<open>None\<close> when the key is absent.\<close>

definition get :: "pydict \<Rightarrow> string \<Rightarrow> pyval" where
  "get d k = (case map_of d k of None \<Rightarrow> PNone | Some v \<Rightarrow> v)"

text \<open>
  \<^verbatim>\<open>DictWriter._dict_to_list\<close> with its defaults: a key outside the field names raises
  \<^verbatim>\<open>ValueError\<close>, a field name without a value gives the empty string.
\<close>

definition dict_to_list :: "string list \<Rightarrow> pydict \<Rightarrow> pyerr + row" where
  "dict_to_list names rowdict =
     (if set (map fst rowdict) - set names \<noteq> {} then Inl ValueError
      else Inr (map (\<lambda>k. case map_of rowdict k of None \<Rightarrow> PStr [] | Some v \<Rightarrow> v) names))"

text \<open>\<^verbatim>\<open>writer.writerow(rowdict)\<close> on the open file \<open>f\<close>.\<close>

definition writerow :: "row list \<Rightarrow> pydict \<Rightarrow> row list \<times> pyerr option" where
  "writerow f rowdict =
     (case dict_to_list fieldnames rowdict of
        Inl e \<Rightarrow> (f, Some e)
      | Inr cells \<Rightarrow> (f @ [cells], None))"

text \<open>\<^verbatim>\<open>writer.writeheader()\<close>: the row that maps every field name to itself.\<close>

definition writeheader :: "row list \<Rightarrow> row list \<times> pyerr option" where
  "writeheader f = writerow f (map (\<lambda>k. (k, PStr k)) fieldnames)"

text \<open>
  The clock reading \<^verbatim>\<open>datetime.utcnow().isoformat()\<close> is the parameter \<open>now\<close>. The
  result is the file system after the call and the exception that escaped, if any.
\<close>

definition log_signal ::
  "string \<Rightarrow> string \<Rightarrow> pydict \<Rightarrow> string \<Rightarrow> filesystem \<Rightarrow> filesystem \<times> pyerr option" where
  "log_signal now headline signal filename fs =
     (let rowdict = [ (''timestamp'', PStr now),
                      (''headline'', PStr headline),
                      (''sentiment'', get signal ''sentiment''),
                      (''direction'', get signal ''direction''),
                      (''confidence'', get signal ''confidence''),
                      (''reason'', get signal ''reason'') ];
          file_exists = (case fs filename of None \<Rightarrow> False | Some old \<Rightarrow> True);
          f = (case fs filename of None \<Rightarrow> [] | Some old \<Rightarrow> old);
          (f1, e1) = (if \<not> file_exists then writeheader f else (f, None))
      in case e1 of
           Some e \<Rightarrow> (fs(filename \<mapsto> f1), Some e)
         | None \<Rightarrow>
             (let (f2, e2) = writerow f1 rowdict in (fs(filename \<mapsto> f2), e2)))"

definition default_filename :: string where
  "default_filename = ''signals_log.csv''"

text \<open>
  A sequence of calls on one log, each with its clock reading, headline and signal; it stops
  at the first call that raises.
\<close>

fun log_signals ::
  "(string \<times> string \<times> pydict) list \<Rightarrow> string \<Rightarrow> filesystem \<Rightarrow> filesystem \<times> pyerr option" where
  "log_signals [] filename fs = (fs, None)"
| "log_signals ((now, headline, signal) # calls) filename fs =
     (case log_signal now headline signal filename fs of
        (fs1, Some e) \<Rightarrow> (fs1, Some e)
      | (fs1, None) \<Rightarrow> log_signals calls filename fs1)"

text \<open>The header row and the data row of a call, as the file holds them.\<close>

definition header_row :: row where
  "header_row = map PStr fieldnames"

definition data_row :: "string \<times> string \<times> pydict \<Rightarrow> row" where
  "data_row c =
     (case c of (now, headline, signal) \<Rightarrow>
        [PStr now, PStr headline, get signal ''sentiment'', get signal ''direction'',
         get signal ''confidence'', get signal ''reason''])"

section \<open>Example inputs\<close>

text \<open>
  Signals used to run the definitions. Their confidences are numbers that a double holds
  exactly.
\<close>

definition bullish_signal :: pydict where
  "bullish_signal =
     [(''sentiment'', PStr ''bullish''), (''confidence'', PFloat (Finite (3 / 4))),
      (''direction'', PStr ''long''), (''reason'', PStr ''x'')]"

definition loose_signal :: pydict where
  "loose_signal =
     [(''sentiment'', PStr ''xyz''), (''confidence'', PFloat (Finite (5 / 2))),
      (''direction'', PStr ''up''), (''reason'', PStr ''x'')]"

definition huge_signal :: pydict where
  "huge_signal =
     [(''sentiment'', PStr ''bullish''), (''confidence'', PInt (2 ^ 1024)),
      (''direction'', PStr ''long''), (''reason'', PStr ''x'')]"

definition worded_signal :: pydict where
  "worded_signal =
     [(''sentiment'', PStr ''bullish''), (''confidence'', PStr ''high''),
      (''direction'', PStr ''long''), (''reason'', PStr ''x'')]"

definition odd_signal :: pydict where
  "odd_signal =
     [(''sentiment'', PList []), (''confidence'', PBool True),
      (''direction'', PNone), (''reason'', PInt 7)]"

definition null_signal :: pydict where
  "null_signal =
     [(''sentiment'', PStr ''bearish''), (''confidence'', PNone),
      (''direction'', PStr ''short''), (''reason'', PStr ''x'')]"

definition partial_signal :: pydict where
  "partial_signal =
     [(''sentiment'', PStr ''bullish''), (''confidence'', PFloat (Finite (3 / 4))),
      (''direction'', PStr ''long'')]"

definition extended_signal :: pydict where
  "extended_signal = bullish_signal @ [(''source'', PStr ''wire''), (''score'', PInt 3)]"

text \<open>A parser that knows one text and rejects every other.\<close>

definition loads_one :: "string \<Rightarrow> pyval \<Rightarrow> string \<Rightarrow> pyerr + pyval" where
  "loads_one text v = (\<lambda>r. Inl JSONDecodeError)(text := Inr v)"

section \<open>Lemmas on the prompt\<close>

lemma sublist_unlines:
  assumes "l \<in> set ls" and "sublist w l"
  shows "sublist w (unlines ls)"
proof -
  obtain xs ys where ls: "ls = xs @ l # ys"
    using assms(1) by (auto dest: split_list)
  have "unlines ls = unlines xs @ l @ ([nl] @ unlines ys)"
    by (simp add: ls unlines_def)
  moreover have "sublist l (unlines xs @ l @ ([nl] @ unlines ys))"
    by (rule sublist_appendI)
  ultimately have "sublist l (unlines ls)" by simp
  with assms(2) show ?thesis by (rule sublist_order.order.trans)
qed

lemma sublist_build_prompt:
  assumes "sublist w (unlines template_lines)"
  shows "sublist w (build_prompt headline)"
proof -
  have "sublist (unlines template_lines) (build_prompt headline)"
    unfolding build_prompt_def by (rule sublist_append_rightI)
  with assms show ?thesis by (rule sublist_order.order.trans)
qed

lemma template_sentiment: "sublist ''sentiment'' (unlines template_lines)"
proof (rule sublist_unlines)
  show "''  '' @ [dq] @ ''sentiment'' @ [dq] @ '': '' @ [dq] @ ''bullish'' @ [dq] @ '' | ''
           @ [dq] @ ''bearish'' @ [dq] @ '' | '' @ [dq] @ ''neutral'' @ [dq] @ '','' \<in> set template_lines"
    by (simp add: template_lines_def)
  have "sublist ''sentiment'' ((''  '' @ [dq]) @ ''sentiment'' @ ([dq] @ '': '' @ [dq] @ ''bullish'' @ [dq] @ '' | ''
           @ [dq] @ ''bearish'' @ [dq] @ '' | '' @ [dq] @ ''neutral'' @ [dq] @ '',''))"
    by (rule sublist_appendI)
  then show "sublist ''sentiment'' (''  '' @ [dq] @ ''sentiment'' @ [dq] @ '': '' @ [dq] @ ''bullish'' @ [dq] @ '' | ''
           @ [dq] @ ''bearish'' @ [dq] @ '' | '' @ [dq] @ ''neutral'' @ [dq] @ '','')"
    by simp
qed

lemma template_confidence: "sublist ''confidence'' (unlines template_lines)"
proof (rule sublist_unlines)
  show "''  '' @ [dq] @ ''confidence'' @ [dq] @ '': float between 0 and 1,'' \<in> set template_lines"
    by (simp add: template_lines_def)
  have "sublist ''confidence'' ((''  '' @ [dq]) @ ''confidence'' @ ([dq] @ '': float between 0 and 1,''))"
    by (rule sublist_appendI)
  then show "sublist ''confidence'' (''  '' @ [dq] @ ''confidence'' @ [dq] @ '': float between 0 and 1,'')"
    by simp
qed

lemma template_direction: "sublist ''direction'' (unlines template_lines)"
proof (rule sublist_unlines)
  show "''  '' @ [dq] @ ''direction'' @ [dq] @ '': '' @ [dq] @ ''long'' @ [dq] @ '' | ''
           @ [dq] @ ''short'' @ [dq] @ '' | '' @ [dq] @ ''flat'' @ [dq] @ '','' \<in> set template_lines"
    by (simp add: template_lines_def)
  have "sublist ''direction'' ((''  '' @ [dq]) @ ''direction'' @ ([dq] @ '': '' @ [dq] @ ''long'' @ [dq] @ '' | ''
           @ [dq] @ ''short'' @ [dq] @ '' | '' @ [dq] @ ''flat'' @ [dq] @ '',''))"
    by (rule sublist_appendI)
  then show "sublist ''direction'' (''  '' @ [dq] @ ''direction'' @ [dq] @ '': '' @ [dq] @ ''long'' @ [dq] @ '' | ''
           @ [dq] @ ''short'' @ [dq] @ '' | '' @ [dq] @ ''flat'' @ [dq] @ '','')"
    by simp
qed

lemma template_reason: "sublist ''reason'' (unlines template_lines)"
proof (rule sublist_unlines)
  show "''  '' @ [dq] @ ''reason'' @ [dq] @ '': '' @ [dq]
           @ ''very short explanation in one sentence'' @ [dq] \<in> set template_lines"
    by (simp add: template_lines_def)
  have "sublist ''reason'' ((''  '' @ [dq]) @ ''reason'' @ ([dq] @ '': '' @ [dq]
           @ ''very short explanation in one sentence'' @ [dq]))"
    by (rule sublist_appendI)
  then show "sublist ''reason'' (''  '' @ [dq] @ ''reason'' @ [dq] @ '': '' @ [dq]
           @ ''very short explanation in one sentence'' @ [dq])"
    by simp
qed

lemma template_role: "sublist ''systematic trading assistant'' (unlines template_lines)"
proof (rule sublist_unlines)
  show "''You are a systematic trading assistant.'' \<in> set template_lines"
    by (simp add: template_lines_def)
  have "sublist ''systematic trading assistant''
          (''You are a '' @ ''systematic trading assistant'' @ ''.'')"
    by (rule sublist_appendI)
  then show "sublist ''systematic trading assistant'' ''You are a systematic trading assistant.''"
    by simp
qed

section \<open>Lemmas on the validator\<close>



section \<open>Lemmas on the interpreter\<close>

lemma interpret_signal_present:
  assumes "map_of signal ''sentiment'' = Some sentiment"
    and "map_of signal ''confidence'' = Some confidence"
    and "map_of signal ''direction'' = Some direction"
    and "map_of signal ''reason'' = Some reason"
  shows "interpret_signal signal =
    (case format_2f confidence of
       Inl e \<Rightarrow>
         ([[Lit (nl # ''--- AI Trading Signal ---'')],
           [Lit ''Sentiment : '', StrOf sentiment],
           [Lit ''Direction : '', StrOf direction]], Inl e)
     | Inr shown \<Rightarrow>
         (case less_than confidence threshold of
            Inl e \<Rightarrow>
              ([[Lit (nl # ''--- AI Trading Signal ---'')],
                [Lit ''Sentiment : '', StrOf sentiment],
                [Lit ''Direction : '', StrOf direction],
                [Lit ''Confidence: '', shown],
                [Lit ''Reason    : '', StrOf reason],
                [Lit (nl # ''Suggested action (for testing / demo only):'')]], Inl e)
          | Inr low \<Rightarrow>
              ([[Lit (nl # ''--- AI Trading Signal ---'')],
                [Lit ''Sentiment : '', StrOf sentiment],
                [Lit ''Direction : '', StrOf direction],
                [Lit ''Confidence: '', shown],
                [Lit ''Reason    : '', StrOf reason],
                [Lit (nl # ''Suggested action (for testing / demo only):'')],
                action low direction sentiment, disclaimer], Inr ())))"
  using assms by (simp add: interpret_signal_def getitem_def split: sum.split)

lemma converts_format_2f: "converts_to_float c \<Longrightarrow> format_2f c = Inr (Fixed2 c)"
  by (cases c) simp_all

lemma not_converts_format_2f: "\<not> converts_to_float c \<Longrightarrow> \<exists>e. format_2f c = Inl e"
  by (cases c) simp_all

lemma converts_less_than:
  "converts_to_float c \<Longrightarrow> less_than c t = Inr (less_than c t = Inr True)"
proof (cases c)
  case (PFloat x)
  then show ?thesis by (cases x) simp_all
qed simp_all

section \<open>Lemmas on the recorder\<close>

lemma dict_to_list_row:
  "dict_to_list fieldnames
     [(''timestamp'', a), (''headline'', b), (''sentiment'', c),
      (''direction'', d), (''confidence'', e), (''reason'', f)] = Inr [a, b, c, d, e, f]"
  by (simp add: dict_to_list_def fieldnames_def)

lemma writeheader_eq: "writeheader f = (f @ [header_row], None)"
  by (simp add: writeheader_def writerow_def dict_to_list_def fieldnames_def header_row_def)

lemma log_signal_eq:
  "log_signal now h s fn fs =
     (fs(fn \<mapsto> (case fs fn of None \<Rightarrow> [header_row] | Some old \<Rightarrow> old) @ [data_row (now, h, s)]), None)"
  by (simp add: log_signal_def writeheader_eq writerow_def dict_to_list_row data_row_def
      split: option.split)

lemma log_signals_existing:
  "fs fn = Some old \<Longrightarrow>
   log_signals calls fn fs = (fs(fn \<mapsto> old @ map data_row calls), None)"
proof (induction calls arbitrary: fs old)
  case Nil
  then show ?case by (simp add: fun_upd_idem)
next
  case (Cons c calls)
  obtain now h s where c: "c = (now, h, s)" by (cases c)
  let ?fs = "fs(fn \<mapsto> old @ [data_row c])"
  have step: "log_signal now h s fn fs = (?fs, None)"
    using Cons.prems by (simp add: log_signal_eq c)
  have "log_signals (c # calls) fn fs = log_signals calls fn ?fs"
    by (simp add: c step)
  also have "\<dots> = (?fs(fn \<mapsto> (old @ [data_row c]) @ map data_row calls), None)"
    by (rule Cons.IH) simp
  also have "?fs(fn \<mapsto> (old @ [data_row c]) @ map data_row calls) =
      fs(fn \<mapsto> old @ map data_row (c # calls))"
    by simp
  finally show ?case .
qed

section \<open>The claims\<close>

subsection \<open>C1: a parsed record is accepted exactly when it has the four keys\<close>

text \<open>
  C1. When the raw text parses as a record \<open>d\<close>, the validator returns \<open>d\<close> itself, as
  it was parsed, if and only if the four required keys are among the keys of \<open>d\<close>. The
  values of the fields play no part: \<open>d\<close> is any association list. With all four keys it
  prints nothing and returns the record; with one missing it prints the diagnostic and the
  record, and returns \<^verbatim>\<open>None\<close>.
\<close>

theorem validate_record:
  assumes "loads raw = Inr (PDict d)"
  shows "(snd (validate loads raw) = Inr (Some (PDict d)) \<longleftrightarrow> required_keys \<subseteq> fst ` set d)
     \<and> (required_keys \<subseteq> fst ` set d \<longrightarrow> validate loads raw = ([], Inr (Some (PDict d))))
     \<and> (\<not> required_keys \<subseteq> fst ` set d \<longrightarrow>
          validate loads raw =
            ([[Lit (warning_sign @ '' JSON is missing required keys. Got:'')],
              [StrOf (PDict d)]], Inr None))"
  using assms by (simp add: validate_def)

text \<open>
  The record of the specification that violates both enumerations and the range of the
  confidence, and a record without \<open>reason\<close>.
\<close>

theorem validate_record_witness:
  "validate (loads_one ''loose'' (PDict loose_signal)) ''loose'' =
     ([], Inr (Some (PDict loose_signal)))
   \<and> snd (validate (loads_one ''partial'' (PDict partial_signal)) ''partial'') = Inr None"
  using validate_record [of "loads_one ''loose'' (PDict loose_signal)" "''loose''" loose_signal]
    validate_record [of "loads_one ''partial'' (PDict partial_signal)" "''partial''" partial_signal]
  by (simp add: loads_one_def loose_signal_def partial_signal_def required_keys_def)

subsection \<open>C2: the decision rule\<close>

text \<open>
  C2, for a confidence that can be formatted. For every signal with the four keys whose
  confidence is a float, or an
  \<^verbatim>\<open>int\<close> or \<^verbatim>\<open>bool\<close> that converts to a float, the interpreter prints the four
  fields, the heading of the suggestion, one action and the disclaimer, and returns. The
  action is the stay-flat line when the confidence is below 0.6, or the direction is
  \<open>flat\<close>, or the sentiment is \<open>neutral\<close>; otherwise the long line for the direction
  \<open>long\<close>, the short line for \<open>short\<close>, and the direction-unclear line for any other
  direction.
\<close>

theorem interpret_signal_rule:
  assumes "map_of signal ''sentiment'' = Some sentiment"
    and "map_of signal ''confidence'' = Some confidence"
    and "map_of signal ''direction'' = Some direction"
    and "map_of signal ''reason'' = Some reason"
    and "converts_to_float confidence"
  shows "interpret_signal signal =
    ([[Lit (nl # ''--- AI Trading Signal ---'')],
      [Lit ''Sentiment : '', StrOf sentiment],
      [Lit ''Direction : '', StrOf direction],
      [Lit ''Confidence: '', Fixed2 confidence],
      [Lit ''Reason    : '', StrOf reason],
      [Lit (nl # ''Suggested action (for testing / demo only):'')],
      (if less_than confidence threshold = Inr True
          \<or> direction = PStr ''flat'' \<or> sentiment = PStr ''neutral''
       then stay_flat_low
       else if direction = PStr ''long'' then consider_long
       else if direction = PStr ''short'' then consider_short
       else stay_flat_unclear),
      disclaimer], Inr ())"
proof -
  have f: "format_2f confidence = Inr (Fixed2 confidence)"
    using assms(5) by (rule converts_format_2f)
  have l: "less_than confidence threshold = Inr (less_than confidence threshold = Inr True)"
    using assms(5) by (rule converts_less_than)
  show ?thesis
    unfolding interpret_signal_present [OF assms(1-4)] f
    by (subst l) (simp add: action_def eq_str_def)
qed

text \<open>A bullish signal with confidence 0.75 and direction \<open>long\<close> gives the long line.\<close>

theorem interpret_signal_rule_witness:
  "interpret_signal bullish_signal =
    ([[Lit (nl # ''--- AI Trading Signal ---'')],
      [Lit ''Sentiment : '', StrOf (PStr ''bullish'')],
      [Lit ''Direction : '', StrOf (PStr ''long'')],
      [Lit ''Confidence: '', Fixed2 (PFloat (Finite (3 / 4)))],
      [Lit ''Reason    : '', StrOf (PStr ''x'')],
      [Lit (nl # ''Suggested action (for testing / demo only):'')],
      consider_long,
      disclaimer], Inr ())"
  using interpret_signal_rule [of bullish_signal "PStr ''bullish''" "PFloat (Finite (3 / 4))"
      "PStr ''long''" "PStr ''x''"]
  by (simp add: bullish_signal_def threshold_def)

text \<open>
  C2 does not extend to every number. The integer \<open>2^1024\<close> is a number and
  is not below 0.6, the direction is \<open>long\<close> and the sentiment \<open>bullish\<close>, yet no
  action is printed: formatting the confidence raises \<^verbatim>\<open>OverflowError\<close> after three
  items of output.
\<close>

theorem interpret_signal_rule_counterexample:
  "less_than (PInt (2 ^ 1024)) threshold = Inr False
   \<and> interpret_signal huge_signal =
      ([[Lit (nl # ''--- AI Trading Signal ---'')],
        [Lit ''Sentiment : '', StrOf (PStr ''bullish'')],
        [Lit ''Direction : '', StrOf (PStr ''long'')]], Inl OverflowError)"
  by (simp add: interpret_signal_def getitem_def huge_signal_def threshold_def)

subsection \<open>C3: when the interpreter completes\<close>

text \<open>
  C3, with the condition on the confidence. For every signal with the four keys, whatever
  the types and values of sentiment, direction and reason, the interpreter completes
  without raising exactly when the confidence is a float, or an \<^verbatim>\<open>int\<close> or
  \<^verbatim>\<open>bool\<close> that converts to a float; it then prints eight items. With any other
  confidence it prints the heading, the sentiment and the direction, and then the
  exception of the \<^verbatim>\<open>:.2f\<close> format escapes.
\<close>

theorem interpret_signal_total_iff:
  assumes "map_of signal ''sentiment'' = Some sentiment"
    and "map_of signal ''confidence'' = Some confidence"
    and "map_of signal ''direction'' = Some direction"
    and "map_of signal ''reason'' = Some reason"
  shows "(snd (interpret_signal signal) = Inr () \<longleftrightarrow> converts_to_float confidence)
     \<and> (converts_to_float confidence \<longrightarrow> length (fst (interpret_signal signal)) = 8)
     \<and> (\<not> converts_to_float confidence \<longrightarrow>
          (\<exists>e. format_2f confidence = Inl e
             \<and> interpret_signal signal =
                 ([[Lit (nl # ''--- AI Trading Signal ---'')],
                   [Lit ''Sentiment : '', StrOf sentiment],
                   [Lit ''Direction : '', StrOf direction]], Inl e)))"
proof (cases "converts_to_float confidence")
  case True
  have f: "format_2f confidence = Inr (Fixed2 confidence)"
    using True by (rule converts_format_2f)
  have l: "less_than confidence threshold = Inr (less_than confidence threshold = Inr True)"
    using True by (rule converts_less_than)
  have "\<exists>out. length out = 8 \<and> interpret_signal signal = (out, Inr ())"
    unfolding interpret_signal_present [OF assms] f
    by (subst l) simp
  with True show ?thesis by auto
next
  case False
  then obtain e where e: "format_2f confidence = Inl e"
    using not_converts_format_2f by blast
  then have "interpret_signal signal =
      ([[Lit (nl # ''--- AI Trading Signal ---'')],
        [Lit ''Sentiment : '', StrOf sentiment],
        [Lit ''Direction : '', StrOf direction]], Inl e)"
    by (simp add: interpret_signal_present [OF assms])
  with False e show ?thesis by simp
qed

text \<open>
  A signal whose sentiment is a list, whose direction is \<^verbatim>\<open>None\<close> and whose reason is
  an integer, with the confidence \<^verbatim>\<open>True\<close>; and a signal whose confidence is
  \<^verbatim>\<open>None\<close>, where \<^verbatim>\<open>TypeError\<close> escapes after three items.
\<close>

theorem interpret_signal_total_iff_witness:
  "snd (interpret_signal odd_signal) = Inr () \<and> length (fst (interpret_signal odd_signal)) = 8
   \<and> interpret_signal null_signal =
       ([[Lit (nl # ''--- AI Trading Signal ---'')],
         [Lit ''Sentiment : '', StrOf (PStr ''bearish'')],
         [Lit ''Direction : '', StrOf (PStr ''short'')]], Inl TypeError)"
  using interpret_signal_total_iff [of odd_signal "PList []" "PBool True" PNone "PInt 7"]
    interpret_signal_total_iff [of null_signal "PStr ''bearish''" PNone "PStr ''short''"
      "PStr ''x''"]
  by (simp add: odd_signal_def null_signal_def)

text \<open>
  C3 does not hold for the confidence \<open>high\<close>: there the interpreter raises
  \<^verbatim>\<open>ValueError\<close> after three items of output.
\<close>

theorem interpret_signal_total_counterexample:
  "interpret_signal worded_signal =
     ([[Lit (nl # ''--- AI Trading Signal ---'')],
       [Lit ''Sentiment : '', StrOf (PStr ''bullish'')],
       [Lit ''Direction : '', StrOf (PStr ''long'')]], Inl ValueError)"
  by (simp add: interpret_signal_def getitem_def worded_signal_def)

subsection \<open>C4: text that parses to something other than a record\<close>

text \<open>
  C4. A text which is valid JSON without being a record, such as an array, should end in
  \<^verbatim>\<open>None\<close> with no exception. On the text \<^verbatim>\<open>[1, 2]\<close>, which parses to
  the list of 1 and 2, the validator prints nothing and \<^verbatim>\<open>AttributeError\<close> escapes:
  the list has no method \<^verbatim>\<open>keys\<close>. A text that does not parse ends in \<^verbatim>\<open>None\<close>.
\<close>

theorem validate_array_raises:
  "validate (loads_one ''[1, 2]'' (PList [PInt 1, PInt 2])) ''[1, 2]'' = ([], Inl AttributeError)
   \<and> snd (validate (loads_one ''[1, 2]'' (PList [PInt 1, PInt 2])) ''[1, 2'') = Inr None"
  by (simp add: validate_def loads_one_def)

subsection \<open>C5: the append law of the log\<close>

text \<open>
  C5. Starting from a file system without the log, one or more calls leave the log holding
  the header row and then one data row per call, in the order of the calls, and none of
  them raises. On a log that exists the calls append their rows to what it holds: nothing
  is rewritten and no header is added, so a later process does not write the header again.
  No other file changes. With no call at all the log is not created.
\<close>

theorem log_signals_append_law:
  "(fs filename = None \<and> calls \<noteq> [] \<longrightarrow>
      log_signals calls filename fs =
        (fs(filename \<mapsto> header_row # map data_row calls), None))
   \<and> (fs filename = Some old \<longrightarrow>
      log_signals calls filename fs = (fs(filename \<mapsto> old @ map data_row calls), None))
   \<and> (\<forall>other. other \<noteq> filename \<longrightarrow> fst (log_signals calls filename fs) other = fs other)"
proof (intro conjI impI allI)
  assume a: "fs filename = None \<and> calls \<noteq> []"
  then obtain c rest where calls: "calls = c # rest" by (cases calls) auto
  obtain now h s where c: "c = (now, h, s)" by (cases c)
  let ?fs = "fs(filename \<mapsto> [header_row, data_row c])"
  have "log_signal now h s filename fs = (?fs, None)"
    using a by (simp add: log_signal_eq c)
  then have "log_signals calls filename fs = log_signals rest filename ?fs"
    by (simp add: calls c)
  also have "\<dots> = (?fs(filename \<mapsto> [header_row, data_row c] @ map data_row rest), None)"
    by (rule log_signals_existing) simp
  also have "?fs(filename \<mapsto> [header_row, data_row c] @ map data_row rest) =
      fs(filename \<mapsto> header_row # map data_row calls)"
    by (simp add: calls)
  finally show "log_signals calls filename fs =
      (fs(filename \<mapsto> header_row # map data_row calls), None)" .
next
  assume "fs filename = Some old"
  then show "log_signals calls filename fs = (fs(filename \<mapsto> old @ map data_row calls), None)"
    by (rule log_signals_existing)
next
  fix other
  assume "other \<noteq> filename"
  then show "fst (log_signals calls filename fs) other = fs other"
  proof (induction calls arbitrary: fs)
    case Nil
    then show ?case by simp
  next
    case (Cons c calls)
    obtain now h s where c: "c = (now, h, s)" by (cases c)
    obtain fs1 where step: "log_signal now h s filename fs = (fs1, None)"
      and fs1: "fs1 other = fs other"
      using Cons.prems by (simp add: log_signal_eq)
    have "fst (log_signals (c # calls) filename fs) other =
        fst (log_signals calls filename fs1) other"
      by (simp add: c step)
    also have "\<dots> = fs1 other"
      using Cons.prems by (rule Cons.IH)
    finally show ?case by (simp add: fs1)
  qed
qed

text \<open>
  Two calls on a missing log, then a third call, as a new process would make it, on the
  file system they leave.
\<close>

theorem log_signals_append_law_witness:
  "fst (log_signals [(''t1'', ''h1'', bullish_signal), (''t2'', ''h2'', loose_signal)]
          default_filename Map.empty) default_filename =
     Some [header_row, data_row (''t1'', ''h1'', bullish_signal),
           data_row (''t2'', ''h2'', loose_signal)]
   \<and> fst (log_signals [(''t3'', ''h3'', bullish_signal)] default_filename
          [default_filename \<mapsto> [header_row, data_row (''t1'', ''h1'', bullish_signal)]])
        default_filename =
     Some [header_row, data_row (''t1'', ''h1'', bullish_signal),
           data_row (''t3'', ''h3'', bullish_signal)]"
  using log_signals_append_law [of Map.empty default_filename
      "[(''t1'', ''h1'', bullish_signal), (''t2'', ''h2'', loose_signal)]" "[]"]
    log_signals_append_law [of
      "[default_filename \<mapsto> [header_row, data_row (''t1'', ''h1'', bullish_signal)]]"
      default_filename "[(''t3'', ''h3'', bullish_signal)]"
      "[header_row, data_row (''t1'', ''h1'', bullish_signal)]"]
  by simp

subsection \<open>C6: fields missing from the signal\<close>

text \<open>
  C6. For every headline and every signal dict, also one that lacks some of sentiment,
  direction, confidence and reason, the call does not raise and appends one row to the
  log; a field whose key is absent from the signal is \<^verbatim>\<open>None\<close> in that row, which the
  csv writer renders as the empty cell.
\<close>

theorem log_signal_missing_fields:
  "snd (log_signal now headline signal filename fs) = None
   \<and> fst (log_signal now headline signal filename fs) filename =
       Some ((case fs filename of None \<Rightarrow> [header_row] | Some old \<Rightarrow> old) @
         [[PStr now, PStr headline, get signal ''sentiment'', get signal ''direction'',
           get signal ''confidence'', get signal ''reason'']])
   \<and> (k \<notin> fst ` set signal \<longrightarrow> get signal k = PNone)"
proof -
  have "k \<notin> fst ` set signal \<longrightarrow> map_of signal k = None"
    by (simp add: map_of_eq_None_iff)
  then show ?thesis
    by (auto simp: log_signal_eq data_row_def get_def)
qed

text \<open>A signal without \<open>reason\<close>, logged to a missing file.\<close>

theorem log_signal_missing_fields_witness:
  "log_signal ''t1'' ''h1'' partial_signal default_filename Map.empty =
     ([default_filename \<mapsto>
         [header_row,
          [PStr ''t1'', PStr ''h1'', PStr ''bullish'', PStr ''long'',
           PFloat (Finite (3 / 4)), PNone]]], None)"
proof -
  have "''reason'' \<notin> fst ` set partial_signal"
    by (simp add: partial_signal_def)
  with log_signal_missing_fields [of "''t1''" "''h1''" partial_signal default_filename
      Map.empty "''reason''"]
  have "get partial_signal ''reason'' = PNone" by simp
  then show ?thesis
    by (simp add: log_signal_eq data_row_def) (simp add: get_def partial_signal_def)
qed

subsection \<open>C7: what the prompt contains\<close>

text \<open>
  C7. For every headline, so for every non-empty one, the prompt contains the headline
  between double quotes, the four field names sentiment, confidence, direction and
  reason, and the words \<open>systematic trading assistant\<close>.
\<close>

theorem build_prompt_contains:
  "sublist ([dq] @ headline @ [dq]) (build_prompt headline)
   \<and> sublist ''sentiment'' (build_prompt headline)
   \<and> sublist ''confidence'' (build_prompt headline)
   \<and> sublist ''direction'' (build_prompt headline)
   \<and> sublist ''reason'' (build_prompt headline)
   \<and> sublist ''systematic trading assistant'' (build_prompt headline)"
proof -
  have "build_prompt headline =
      (unlines template_lines @ ''Headline: '') @ ([dq] @ headline @ [dq]) @ [nl]"
    by (simp add: build_prompt_def)
  moreover have "sublist ([dq] @ headline @ [dq])
      ((unlines template_lines @ ''Headline: '') @ ([dq] @ headline @ [dq]) @ [nl])"
    by (rule sublist_appendI)
  ultimately have "sublist ([dq] @ headline @ [dq]) (build_prompt headline)"
    by simp
  then show ?thesis
    by (simp only: sublist_build_prompt template_sentiment template_confidence
        template_direction template_reason template_role simp_thms)
qed

subsection \<open>C8: one raw text, one outcome\<close>



subsection \<open>C9: a log that exists and is empty\<close>

text \<open>
  C9. When the log exists and holds nothing, the call writes no header: afterwards the
  log holds the data row of the call and nothing else.
\<close>

theorem log_signal_empty_file:
  assumes "fs filename = Some []"
  shows "log_signal now headline signal filename fs =
     (fs(filename \<mapsto> [[PStr now, PStr headline, get signal ''sentiment'',
        get signal ''direction'', get signal ''confidence'', get signal ''reason'']]), None)"
  using assms by (simp add: log_signal_eq data_row_def)

theorem log_signal_empty_file_witness:
  "log_signal ''t1'' ''h1'' bullish_signal default_filename [default_filename \<mapsto> []] =
     ([default_filename \<mapsto>
         [[PStr ''t1'', PStr ''h1'', PStr ''bullish'', PStr ''long'',
           PFloat (Finite (3 / 4)), PStr ''x'']]], None)"
  using log_signal_empty_file [of "[default_filename \<mapsto> []]" default_filename
      "''t1''" "''h1''" bullish_signal]
  by (simp add: get_def bullish_signal_def)

subsection \<open>C10: keys beyond the four fields\<close>

text \<open>
  C10. The row appended to the log has the six cells timestamp, headline, sentiment,
  direction, confidence and reason, as many as there are column names, and nothing else:
  two signals that agree on the four fields give the same log, whatever other keys they
  carry.
\<close>

theorem log_signal_ignores_extra_keys:
  assumes "\<forall>k \<in> {''sentiment'', ''direction'', ''confidence'', ''reason''}.
             map_of signal1 k = map_of signal2 k"
  shows "log_signal now headline signal1 filename fs = log_signal now headline signal2 filename fs
     \<and> (\<exists>old cells. fst (log_signal now headline signal1 filename fs) filename = Some (old @ [cells])
           \<and> length cells = length fieldnames
           \<and> cells = [PStr now, PStr headline, get signal1 ''sentiment'',
                get signal1 ''direction'', get signal1 ''confidence'', get signal1 ''reason''])"
proof -
  have "data_row (now, headline, signal1) = data_row (now, headline, signal2)"
    using assms by (simp add: data_row_def get_def)
  then show ?thesis
    by (simp add: log_signal_eq fieldnames_def) (simp add: data_row_def)
qed

text \<open>The bullish signal with two more keys is logged as the bullish signal is.\<close>

theorem log_signal_ignores_extra_keys_witness:
  "log_signal ''t1'' ''h1'' extended_signal default_filename Map.empty =
   log_signal ''t1'' ''h1'' bullish_signal default_filename Map.empty"
  using log_signal_ignores_extra_keys [of extended_signal bullish_signal "''t1''" "''h1''"
      default_filename Map.empty]
  by (simp add: extended_signal_def bullish_signal_def)

end
